theory Spec2Isabelle
  imports
    Main
    "HOL-Library.AList"
    "HOL-Library.Char_ord"
    "HOL-Library.List_Lexorder"
begin

section \<open>Common data\<close>

text \<open>
  Document kinds are JavaScript property names (\<open>passport\<close>, \<open>cv\<close>, ...); the handlers do not
  validate them, so any string can occur.  \<open>Array.prototype.sort()\<close> without a comparator
  orders strings by code unit, which for these names is the lexicographic order on
  \<^typ>\<open>string\<close> given by \<open>Char_ord\<close> and \<open>List_Lexorder\<close>.

  Every handler reads the clock (\<open>new Date()\<close>, \<open>Date.now()\<close>) several times within a few
  instructions; the model passes one reading \<open>now\<close> per request, in milliseconds.

  Objects and \<open>Map\<close>s whose key order is observable (\<open>Object.keys\<close>, \<open>Object.values\<close>,
  \<open>entries()\<close>) are association lists in insertion order, written to with
  \<^const>\<open>AList.update\<close>: an existing key keeps its place, a new key goes to the end.
\<close>

type_synonym kind = string
type_synonym time = nat

text \<open>\<open>x || d\<close> on an optional string: \<open>undefined\<close> and the empty string are falsy.\<close>

definition truthy :: "string option \<Rightarrow> bool" where
  "truthy x = (case x of None \<Rightarrow> False | Some s \<Rightarrow> s \<noteq> [])"

definition or_else :: "string option \<Rightarrow> string \<Rightarrow> string" where
  "or_else x d = (case x of None \<Rightarrow> d | Some s \<Rightarrow> if s = [] then d else s)"

text \<open>\<open>counts[k] || d\<close> on a table of numbers: a missing entry and \<open>0\<close> are falsy.\<close>

definition count_or :: "(kind \<times> nat) list \<Rightarrow> kind \<Rightarrow> nat \<Rightarrow> nat" where
  "count_or cs k d = (case map_of cs k of None \<Rightarrow> d | Some n \<Rightarrow> if n = 0 then d else n)"

text \<open>
  A stored file of an application: the object \<open>POST /upload\<close> builds for each uploaded file,
  with the three fields the review handler of the application router writes on it later.
\<close>

record file_record =
  f_filename :: string
  f_originalName :: string
  f_size :: nat
  f_path :: string
  f_uploadNumber :: nat
  f_uploadedAt :: time
  f_status :: string
  f_reviewComments :: "string option"
  f_reviewedAt :: "time option"

text \<open>
  The answers of the handlers that are not a success, one constructor for each
  \<open>res.status(...).json({ error: ... })\<close> the model reaches, and the HTTP status it carries.
\<close>

datatype error =
    MissingFields
  | InvalidEmailFormat
  | EditingUsesOtherEndpoint
  | RegisteredForEditing
  | MaxUploadsReached
  | MissingJobPreferences
  | NoFilesUploaded
  | NoRejectedDocuments
  | EditingRequestExists
  | TransactionIdRequired
  | EditingRequestNotFound
  | PaymentNotVerified
  | InvalidOrExpiredToken
  | FileNotFound

fun http_status :: "error \<Rightarrow> nat" where
  "http_status EditingRequestNotFound = 404"
| "http_status FileNotFound = 404"
| "http_status PaymentNotVerified = 403"
| "http_status InvalidOrExpiredToken = 403"
| "http_status _ = 400"

section \<open>The file-backed admin router (\<open>metadata.json\<close>)\<close>

text \<open>
  \<open>src/server/models/Editing.js\<close>, lines 110 to 1031: the handlers read
  \<open>uploads/<email>/metadata.json\<close>, change the parsed object and write it back.  The record
  below holds the fields these handlers touch.  A missing \<open>documentReviews\<close>,
  \<open>documentRejectionCount\<close>, \<open>reuploadRequests\<close> or \<open>uploadedFiles\<close> reads like an empty one
  in every handler (\<open>if (!x) x = {}\<close>, \<open>x && ...\<close>, \<open>x || []\<close>), so they are plain lists.
\<close>

record review =
  rv_status :: string
  rv_comments :: string
  rv_reviewedAt :: time
  rv_reviewedBy :: string
  rv_rejectionCount :: nat

record reupload_request =
  rq_documents :: "kind list"
  rq_message :: "string option"
  rq_requestedAt :: time
  rq_status :: string
  rq_completedAt :: "time option"
  rq_rejectionCount :: "(kind \<times> nat) list option"

record metadata =
  md_status :: string
  md_documentReviews :: "(kind \<times> review) list"
  md_documentRejectionCount :: "(kind \<times> nat) list"
  md_reuploadRequests :: "reupload_request list"
  md_uploadedFiles :: "(kind \<times> file_record list) list"
  md_updatedAt :: time

text \<open>\<open>reviews[doc]?.status === s\<close>\<close>

definition review_status_is :: "(kind \<times> review) list \<Rightarrow> string \<Rightarrow> kind \<Rightarrow> bool" where
  "review_status_is reviews s doc =
     (case map_of reviews doc of None \<Rightarrow> False | Some r \<Rightarrow> rv_status r = s)"

text \<open>
  The callback of \<open>reuploadRequests.some(...)\<close> (review) and \<open>reuploadRequests.find(...)\<close>
  (request-reupload):
  \<^verbatim>\<open>req.status === 'pending' &&
  JSON.stringify(req.documents.sort()) === JSON.stringify(wanted.sort())\<close>
  \<open>sort()\<close> sorts in place, so every pending request visited before the search stops has its
  \<open>documents\<close> sorted afterwards, and so has \<open>wanted\<close> once a pending request was visited.
  The search stops at the first match.  Returns whether a match was found, the requests and
  \<open>wanted\<close> as they are after the search.
\<close>

fun pending_match :: "kind list \<Rightarrow> reupload_request list \<Rightarrow> bool \<times> reupload_request list \<times> kind list" where
  "pending_match wanted [] = (False, [], wanted)"
| "pending_match wanted (r # rs) =
     (if rq_status r = ''pending'' then
        (let r' = r\<lparr>rq_documents := sort (rq_documents r)\<rparr>; wanted' = sort wanted in
         if rq_documents r' = wanted' then (True, r' # rs, wanted')
         else (case pending_match wanted' rs of (found, rs', w) \<Rightarrow> (found, r' # rs', w)))
      else (case pending_match wanted rs of (found, rs', w) \<Rightarrow> (found, r # rs', w)))"

text \<open>
  A request with its documents sorted: what \<open>req.documents.sort()\<close> leaves behind.  Two
  request lists that agree under \<open>map sorted_docs\<close> differ at most in the order of the
  documents inside single requests.
\<close>

definition sorted_docs :: "reupload_request \<Rightarrow> reupload_request" where
  "sorted_docs r = r\<lparr>rq_documents := sort (rq_documents r)\<rparr>"

text \<open>\<open>if (request.status === 'pending') { request.status = 'completed'; request.completedAt = now }\<close>\<close>

definition complete_request :: "time \<Rightarrow> reupload_request \<Rightarrow> reupload_request" where
  "complete_request now r =
     (if rq_status r = ''pending'' then r\<lparr>rq_status := ''completed'', rq_completedAt := Some now\<rparr> else r)"

text \<open>
  The filter at the end of the review handler: a pending request stays only while one of its
  documents is still rejected; any other request stays.
\<close>

definition still_needed :: "(kind \<times> review) list \<Rightarrow> reupload_request \<Rightarrow> bool" where
  "still_needed reviews r =
     (if rq_status r = ''pending'' then list_ex (review_status_is reviews ''rejected'') (rq_documents r)
      else True)"

definition requiredDocs :: "kind list" where
  "requiredDocs = [''passport'', ''photo'', ''cv'', ''qualifications'']"

definition optionalDocs :: "kind list" where
  "optionalDocs = [''coverLetter'', ''experience'']"

text \<open>
  The tests of the review handler on the reviews as they are after the new entry is written:
  \<^verbatim>\<open>Object.values(reviews).some(review => review.status === 'rejected')\<close>,
  \<^verbatim>\<open>Object.keys(reviews).filter(doc => reviews[doc]?.status === 'rejected')\<close>,
  \<^verbatim>\<open>requiredDocs.every(doc => reviews[doc]?.status === 'approved')\<close> and
  \<^verbatim>\<open>optionalDocs.every(doc => { const hasDoc = metadata.uploadedFiles && metadata.uploadedFiles[doc];
    return !hasDoc || (hasDoc && reviews[doc]?.status === 'approved'); })\<close>
  (a stored file list is an array, hence truthy even when empty).
\<close>

definition hasRejections :: "(kind \<times> review) list \<Rightarrow> bool" where
  "hasRejections reviews = list_ex (\<lambda>(doc, r). rv_status r = ''rejected'') reviews"

definition documentsNeedingReupload :: "(kind \<times> review) list \<Rightarrow> kind list" where
  "documentsNeedingReupload reviews = map fst (filter (\<lambda>(doc, r). rv_status r = ''rejected'') reviews)"

definition allRequiredApproved :: "(kind \<times> review) list \<Rightarrow> bool" where
  "allRequiredApproved reviews = list_all (review_status_is reviews ''approved'') requiredDocs"

definition optionalReviewed :: "(kind \<times> file_record list) list \<Rightarrow> (kind \<times> review) list \<Rightarrow> bool" where
  "optionalReviewed files reviews =
     list_all (\<lambda>doc. let hasDoc = (map_of files doc \<noteq> None)
                      in \<not> hasDoc \<or> (hasDoc \<and> review_status_is reviews ''approved'' doc))
       optionalDocs"

text \<open>
  The request the review handler pushes:
  \<^verbatim>\<open>{ documents: documentsNeedingReupload,
    message: comments || 'Please update the following documents',
    requestedAt: new Date().toISOString(), status: 'pending',
    rejectionCount: documentsNeedingReupload.map(d =>
      ({ document: d, count: metadata.documentRejectionCount[d] || 1 })) }\<close>
\<close>

definition review_request :: "time \<Rightarrow> string option \<Rightarrow> (kind \<times> nat) list \<Rightarrow> kind list \<Rightarrow> reupload_request" where
  "review_request now comments counts docs =
     \<lparr>rq_documents = docs,
      rq_message = Some (or_else comments ''Please update the following documents''),
      rq_requestedAt = now, rq_status = ''pending'', rq_completedAt = None,
      rq_rejectionCount = Some (map (\<lambda>d. (d, count_or counts d 1)) docs)\<rparr>"

text \<open>
  \<open>POST /application/:email/document/review\<close> on an existing record.  The steps are those of
  the handler, in its order: the rejection counter, the review entry, the overall status with
  the re-upload requests, the filter on the requests, \<open>updatedAt\<close>.
\<close>

definition review_document :: "time \<Rightarrow> kind \<Rightarrow> string \<Rightarrow> string option \<Rightarrow> metadata \<Rightarrow> metadata" where
  "review_document now documentType status comments m =
     (let counts = (if status = ''rejected''
                    then AList.update documentType (count_or (md_documentRejectionCount m) documentType 0 + 1)
                           (md_documentRejectionCount m)
                    else md_documentRejectionCount m);
          reviews = AList.update documentType
                      \<lparr>rv_status = status, rv_comments = or_else comments [],
                       rv_reviewedAt = now, rv_reviewedBy = ''Admin'',
                       rv_rejectionCount = count_or counts documentType 0\<rparr>
                      (md_documentReviews m);
          (st, reqs) =
            (if hasRejections reviews then
               (if length (documentsNeedingReupload reviews) > 0 then
                  (case pending_match (documentsNeedingReupload reviews) (md_reuploadRequests m) of
                     (hasPendingRequest, reqs', docs') \<Rightarrow>
                       (''changes-required'',
                        if \<not> hasPendingRequest then reqs' @ [review_request now comments counts docs']
                        else reqs'))
                else (''changes-required'', md_reuploadRequests m))
             else if allRequiredApproved reviews \<and> optionalReviewed (md_uploadedFiles m) reviews then
               (''documents-approved'', map (complete_request now) (md_reuploadRequests m))
             else if md_status m \<noteq> ''changes-required'' then (''review'', md_reuploadRequests m)
             else (md_status m, md_reuploadRequests m))
      in m\<lparr>md_status := st,
           md_documentReviews := reviews,
           md_documentRejectionCount := counts,
           md_reuploadRequests := filter (still_needed reviews) reqs,
           md_updatedAt := now\<rparr>)"



fun review_documents :: "(time \<times> kind \<times> string \<times> string option) list \<Rightarrow> metadata \<Rightarrow> metadata" where
  "review_documents [] m = m"
| "review_documents ((now, documentType, status, comments) # evs) m =
     review_documents evs (review_document now documentType status comments m)"

text \<open>
  \<open>POST /application/:email/request-reupload\<close> on an existing record: the 400 answer returns
  before anything is written.
\<close>

definition request_reupload :: "time \<Rightarrow> kind list \<Rightarrow> string option \<Rightarrow> metadata \<Rightarrow> error + metadata" where
  "request_reupload now documents message m =
     (let rejectedDocs = filter (review_status_is (md_documentReviews m) ''rejected'') documents
      in if length rejectedDocs = 0 then Inl NoRejectedDocuments
         else
           (case pending_match rejectedDocs (md_reuploadRequests m) of
              (existingRequest, reqs', docs') \<Rightarrow>
                Inr (m\<lparr>md_reuploadRequests :=
                          (if \<not> existingRequest then
                             reqs' @ [\<lparr>rq_documents = docs', rq_message = message,
                                       rq_requestedAt = now, rq_status = ''pending'',
                                       rq_completedAt = None, rq_rejectionCount = None\<rparr>]
                           else reqs'),
                        md_status := ''reupload-requested'',
                        md_updatedAt := now\<rparr>)))"

section \<open>The application router (MongoDB)\<close>

text \<open>
  \<open>src/server/routes/application.js\<close>, lines 1 to 1458.  The handlers load one
  \<open>Application\<close> document by \<open>personalInfo.email\<close>, change it and call \<open>save()\<close>; the model takes
  the document as the handler reads it and returns it as the handler leaves it, and takes
  \<open>save()\<close> to succeed.  Every \<open>return res.status(...)\<close> of these handlers comes before the
  first write to the document.  The handlers read and write \<open>documentStatus\<close> like the other
  maps of the document; the schema of the model (\<open>src/unnamed\<close>) does not declare it, and what
  \<open>save()\<close> keeps of it is outside the model.
\<close>

record personal_info =
  pi_fullName :: string
  pi_email :: string
  pi_phone :: string
  pi_age :: "int option"
  pi_gender :: string
  pi_maritalStatus :: string
  pi_country :: string
  pi_visaType :: string

record job_preferences =
  jp_preferredCountry :: "string option"
  jp_preferredJob :: "string option"
  jp_additionalInfo :: "string option"

record upload_history_entry =
  uh_timestamp :: time
  uh_files :: "kind list"

record app_review =
  ar_status :: string
  ar_comments :: "string option"
  ar_reviewedAt :: time
  ar_reviewedBy :: string

text \<open>
  The texts of the comments the handlers push are template strings; the model keeps which
  template it is and the values put into it.
\<close>

datatype comment_text =
    DocumentRejected kind string nat
  | DocumentApproved kind
  | AllDocumentsApproved
  | ChangesRequired
  | ReuploadRequested "kind list" "string option"

record comment =
  c_text :: comment_text
  c_timestamp :: time
  c_user :: string
  c_type :: string

record application =
  app_personalInfo :: personal_info
  app_jobPreferences :: "job_preferences option"
  app_status :: string
  app_uploadCount :: nat
  app_uploadedFiles :: "(kind \<times> file_record list) list"
  app_uploadHistory :: "upload_history_entry list"
  app_mode :: string
  app_createdAt :: time
  app_updatedAt :: time
  app_lastUploadAt :: "time option"
  app_documentReviews :: "(kind \<times> app_review) list"
  app_documentStatus :: "(kind \<times> string) list"
  app_documentRejectionCount :: "(kind \<times> nat) list"
  app_comments :: "comment list"
  app_reuploadRequests :: "reupload_request list"

subsection \<open>\<open>POST /upload\<close>\<close>

text \<open>A file as multer hands it over in \<open>req.files[field]\<close>.\<close>

record multer_file =
  mf_filename :: string
  mf_originalname :: string
  mf_size :: nat
  mf_path :: string

text \<open>
  The form fields of \<open>req.body\<close> (text, or missing) and \<open>req.files\<close>, which has an entry, a
  non-empty array, for each field that came with files.
\<close>

record upload_request =
  r_fullName :: "string option"
  r_email :: "string option"
  r_phone :: "string option"
  r_age :: "string option"
  r_gender :: "string option"
  r_maritalStatus :: "string option"
  r_country :: "string option"
  r_visaType :: "string option"
  r_preferredCountry :: "string option"
  r_preferredJob :: "string option"
  r_additionalInfo :: "string option"
  r_mode :: "string option"
  r_files :: "(kind \<times> multer_file list) list"

text \<open>
  \<^verbatim>\<open>/^[^\s@]+@[^\s@]+\.[^\s@]+$/\<close>: one \<open>@\<close>, no white space, a non-empty part before the
  \<open>@\<close>, and after it a dot that is neither its first nor its last character.  White space is
  the ASCII part of \<open>\s\<close>.
\<close>

definition is_space :: "char \<Rightarrow> bool" where
  "is_space c = (c \<in> {CHR '' '', CHR 0x09, CHR 0x0A, CHR 0x0B, CHR 0x0C, CHR 0x0D})"

definition emailRegex :: "string \<Rightarrow> bool" where
  "emailRegex s =
     (let local_part = takeWhile (\<lambda>c. c \<noteq> CHR ''@'') s;
          rest = dropWhile (\<lambda>c. c \<noteq> CHR ''@'') s
      in local_part \<noteq> [] \<and> \<not> list_ex is_space local_part \<and> rest \<noteq> [] \<and>
         (let domain = tl rest
          in \<not> list_ex (\<lambda>c. c = CHR ''@'' \<or> is_space c) domain \<and>
             list_ex (\<lambda>i. domain ! i = CHR ''.'') [1 ..< length domain - 1]))"

text \<open>
  \<open>parseInt(age)\<close>: white space, a sign, then decimal digits, or hexadecimal digits after
  \<open>0x\<close>; anything after the digits is ignored; no digit gives \<open>NaN\<close>, here \<open>None\<close>.
\<close>

definition digit_of :: "char \<Rightarrow> nat option" where
  "digit_of c =
     (let n = of_char c :: nat in
      if 48 \<le> n \<and> n \<le> 57 then Some (n - 48)
      else if 97 \<le> n \<and> n \<le> 102 then Some (n - 87)
      else if 65 \<le> n \<and> n \<le> 70 then Some (n - 55)
      else None)"

definition digits_value :: "nat \<Rightarrow> string \<Rightarrow> nat option" where
  "digits_value radix s =
     (let ds = takeWhile (\<lambda>c. case digit_of c of None \<Rightarrow> False | Some d \<Rightarrow> d < radix) s
      in if ds = [] then None
         else Some (foldl (\<lambda>acc c. radix * acc + the (digit_of c)) 0 ds))"

definition parseInt :: "string \<Rightarrow> int option" where
  "parseInt s =
     (let t = dropWhile is_space s;
          negative = (t \<noteq> [] \<and> hd t = CHR ''-'');
          u = (if t \<noteq> [] \<and> (hd t = CHR ''-'' \<or> hd t = CHR ''+'') then tl t else t);
          v = (if take 2 u = ''0x'' \<or> take 2 u = ''0X'' then digits_value 16 (drop 2 u)
               else digits_value 10 u)
      in case v of None \<Rightarrow> None
         | Some n \<Rightarrow> Some (if negative then - int n else int n))"

definition documentFields :: "kind list" where
  "documentFields = [''passport'', ''photo'', ''cv'', ''coverLetter'', ''qualifications'',
                     ''experience'', ''documents'']"

text \<open>
  The object the handler builds from \<open>req.files\<close>:
  \<^verbatim>\<open>documentFields.forEach(key => { if (req.files[key]) {
    uploadedFiles[key] = req.files[key].map(file => ({ ..., uploadNumber: uploadCount,
      uploadedAt: new Date(), status: 'pending', reviewComments: null }));
    uploadHistoryEntry.files.push(key); } })\<close>
\<close>

definition new_file :: "time \<Rightarrow> nat \<Rightarrow> multer_file \<Rightarrow> file_record" where
  "new_file now uploadCount file =
     \<lparr>f_filename = mf_filename file, f_originalName = mf_originalname file,
      f_size = mf_size file, f_path = mf_path file, f_uploadNumber = uploadCount,
      f_uploadedAt = now, f_status = ''pending'', f_reviewComments = None, f_reviewedAt = None\<rparr>"

definition uploadedFiles_of :: "time \<Rightarrow> nat \<Rightarrow> (kind \<times> multer_file list) list \<Rightarrow> (kind \<times> file_record list) list" where
  "uploadedFiles_of now uploadCount files =
     List.map_filter
       (\<lambda>key. case map_of files key of None \<Rightarrow> None
               | Some fs \<Rightarrow> Some (key, map (new_file now uploadCount) fs))
       documentFields"

text \<open>
  \<open>{ ...old, ...new }\<close>: the keys of \<open>old\<close> in their order, each with the value \<open>new\<close> has for
  it if it has one, then the other keys of \<open>new\<close>.
\<close>

definition spread :: "('k \<times> 'v) list \<Rightarrow> ('k \<times> 'v) list \<Rightarrow> ('k \<times> 'v) list" where
  "spread old new = fold (\<lambda>(k, v). AList.update k v) new old"

text \<open>The job preferences of a re-upload: only the fields that were sent are written.\<close>

definition update_jobPreferences :: "upload_request \<Rightarrow> job_preferences option \<Rightarrow> job_preferences option" where
  "update_jobPreferences req old =
     (if truthy (r_preferredCountry req) \<or> truthy (r_preferredJob req) \<or> truthy (r_additionalInfo req)
      then
        (let jp0 = (case old of None \<Rightarrow> \<lparr>jp_preferredCountry = None, jp_preferredJob = None,
                                           jp_additionalInfo = None\<rparr>
                    | Some jp \<Rightarrow> jp);
             jp1 = (if truthy (r_preferredCountry req)
                    then jp0\<lparr>jp_preferredCountry := r_preferredCountry req\<rparr> else jp0);
             jp2 = (if truthy (r_preferredJob req)
                    then jp1\<lparr>jp_preferredJob := r_preferredJob req\<rparr> else jp1);
             jp3 = (if r_additionalInfo req \<noteq> None
                    then jp2\<lparr>jp_additionalInfo := r_additionalInfo req\<rparr> else jp2)
         in Some jp3)
      else old)"

text \<open>
  \<^verbatim>\<open>!fullName || !email || !phone || !age || !gender || !maritalStatus || !country || !visaType\<close>
\<close>

definition missing_fields :: "upload_request \<Rightarrow> bool" where
  "missing_fields req =
     (\<not> truthy (r_fullName req) \<or> \<not> truthy (r_email req) \<or> \<not> truthy (r_phone req) \<or>
      \<not> truthy (r_age req) \<or> \<not> truthy (r_gender req) \<or> \<not> truthy (r_maritalStatus req) \<or>
      \<not> truthy (r_country req) \<or> \<not> truthy (r_visaType req))"

text \<open>
  The handler, given the document \<open>findOne\<close> returned for the e-mail address of the request
  (\<open>None\<close>: there is none).  The checks are in the handler's order.  \<open>uploadCount\<close> is a
  number: \<open>(existingApplication.uploadCount || 0) + 1\<close> is the successor.
\<close>

definition submit_upload :: "time \<Rightarrow> upload_request \<Rightarrow> application option \<Rightarrow> error + application" where
  "submit_upload now req existingApplication =
     (if missing_fields req then Inl MissingFields
      else if \<not> emailRegex (or_else (r_email req) []) then Inl InvalidEmailFormat
      else if r_mode req = Some ''editing'' then Inl EditingUsesOtherEndpoint
      else
        (case existingApplication of
           Some a \<Rightarrow>
             if app_mode a = ''editing'' then Inl RegisteredForEditing
             else
               (let uploadCount = app_uploadCount a + 1
                in if uploadCount > 3 then Inl MaxUploadsReached
                   else if r_files req = [] then Inl NoFilesUploaded
                   else
                     (let uploadedFiles = uploadedFiles_of now uploadCount (r_files req)
                      in Inr (a\<lparr>app_uploadedFiles := spread (app_uploadedFiles a) uploadedFiles,
                                app_uploadCount := uploadCount,
                                app_uploadHistory := app_uploadHistory a @
                                  [\<lparr>uh_timestamp = now, uh_files = map fst uploadedFiles\<rparr>],
                                app_lastUploadAt := Some now,
                                app_updatedAt := now,
                                app_jobPreferences := update_jobPreferences req (app_jobPreferences a),
                                app_status := ''received''\<rparr>)))
         | None \<Rightarrow>
             if \<not> truthy (r_preferredCountry req) \<or> \<not> truthy (r_preferredJob req)
             then Inl MissingJobPreferences
             else if r_files req = [] then Inl NoFilesUploaded
             else
               (let uploadedFiles = uploadedFiles_of now 1 (r_files req)
                in Inr \<lparr>app_personalInfo =
                          \<lparr>pi_fullName = or_else (r_fullName req) [],
                           pi_email = or_else (r_email req) [],
                           pi_phone = or_else (r_phone req) [],
                           pi_age = parseInt (or_else (r_age req) []),
                           pi_gender = or_else (r_gender req) [],
                           pi_maritalStatus = or_else (r_maritalStatus req) [],
                           pi_country = or_else (r_country req) [],
                           pi_visaType = or_else (r_visaType req) []\<rparr>,
                        app_jobPreferences =
                          Some \<lparr>jp_preferredCountry = r_preferredCountry req,
                                jp_preferredJob = r_preferredJob req,
                                jp_additionalInfo = Some (or_else (r_additionalInfo req) [])\<rparr>,
                        app_status = ''received'',
                        app_uploadCount = 1,
                        app_uploadedFiles = uploadedFiles,
                        app_uploadHistory = [\<lparr>uh_timestamp = now, uh_files = map fst uploadedFiles\<rparr>],
                        app_mode = ''application'',
                        app_createdAt = now,
                        app_updatedAt = now,
                        app_lastUploadAt = None,
                        app_documentReviews = [],
                        app_documentStatus = [],
                        app_documentRejectionCount = [],
                        app_comments = [],
                        app_reuploadRequests = []\<rparr>)))"

text \<open>
  The collection, keyed by \<open>personalInfo.email\<close>, and a request against it: an error answer
  leaves the collection as it was, a success saves the document under the address.
\<close>

type_synonym applications = "string \<rightharpoonup> application"

definition post_upload :: "time \<Rightarrow> upload_request \<Rightarrow> applications \<Rightarrow> (error + application) \<times> applications" where
  "post_upload now req db =
     (let email = or_else (r_email req) []
      in case submit_upload now req (db email) of
           Inl e \<Rightarrow> (Inl e, db)
         | Inr a \<Rightarrow> (Inr a, db(email \<mapsto> a)))"

fun post_uploads :: "(time \<times> upload_request) list \<Rightarrow> applications \<Rightarrow> applications" where
  "post_uploads [] db = db"
| "post_uploads ((now, req) # reqs) db = post_uploads reqs (snd (post_upload now req db))"

subsection \<open>\<open>POST /admin/application/:email/document/review\<close>\<close>

definition requiredDocs_mongo :: "kind list" where
  "requiredDocs_mongo = [''passport'', ''photo'', ''cv'', ''coverLetter'', ''qualifications'',
                         ''experience'']"

text \<open>
  \<open>allApproved\<close> and \<open>allRejected\<close> after the loop over \<open>requiredDocs\<close>:
  \<open>documentStatus.get(doc)\<close> is compared with \<open>'approved'\<close> and with \<open>'rejected'\<close>.
\<close>

definition allApproved :: "(kind \<times> string) list \<Rightarrow> bool" where
  "allApproved documentStatus =
     list_all (\<lambda>doc. map_of documentStatus doc = Some ''approved'') requiredDocs_mongo"

definition allRejected :: "(kind \<times> string) list \<Rightarrow> bool" where
  "allRejected documentStatus =
     list_all (\<lambda>doc. map_of documentStatus doc = Some ''rejected'') requiredDocs_mongo"

text \<open>
  The handler on the document found.  \<open>adminUser\<close> is the header \<open>x-admin-user\<close>.  The
  files of the reviewed kind get the status, the comments and the time of the review.
\<close>

definition mongo_review_document ::
    "time \<Rightarrow> string option \<Rightarrow> kind \<Rightarrow> string \<Rightarrow> string option \<Rightarrow> application \<Rightarrow> application" where
  "mongo_review_document now adminUser documentType status comments a =
     (let documentReviews = AList.update documentType
                              \<lparr>ar_status = status,
                               ar_comments = (if truthy comments then comments else None),
                               ar_reviewedAt = now,
                               ar_reviewedBy = or_else adminUser ''admin''\<rparr>
                              (app_documentReviews a);
          documentStatus = AList.update documentType status (app_documentStatus a);
          uploadedFiles = map (\<lambda>(key, files).
                                 if key = documentType
                                 then (key, map (\<lambda>file. file\<lparr>f_status := status,
                                                              f_reviewComments := comments,
                                                              f_reviewedAt := Some now\<rparr>) files)
                                 else (key, files))
                            (app_uploadedFiles a);
          currentCount = count_or (app_documentRejectionCount a) documentType 0;
          documentRejectionCount =
            (if status = ''rejected''
             then AList.update documentType (currentCount + 1) (app_documentRejectionCount a)
             else app_documentRejectionCount a);
          comments1 =
            (if status = ''rejected''
             then app_comments a @
                    [\<lparr>c_text = DocumentRejected documentType (or_else comments ''No reason provided'')
                                 (currentCount + 1),
                      c_timestamp = now, c_user = ''Admin'', c_type = ''system''\<rparr>]
             else if status = ''approved''
             then app_comments a @
                    [\<lparr>c_text = DocumentApproved documentType,
                      c_timestamp = now, c_user = ''Admin'', c_type = ''system''\<rparr>]
             else app_comments a);
          (status2, comments2) =
            (if allApproved documentStatus \<and> app_status a \<noteq> ''documents-approved''
             then (''documents-approved'',
                   comments1 @ [\<lparr>c_text = AllDocumentsApproved, c_timestamp = now,
                                 c_user = ''System'', c_type = ''system''\<rparr>])
             else (app_status a, comments1));
          (status3, comments3) =
            (if \<not> allApproved documentStatus \<and> \<not> allRejected documentStatus
             then
               (let hasRejections = (''rejected'' \<in> set (map snd documentStatus))
                in if hasRejections \<and> status2 \<noteq> ''changes-required''
                   then (''changes-required'',
                         comments2 @ [\<lparr>c_text = ChangesRequired, c_timestamp = now,
                                       c_user = ''System'', c_type = ''system''\<rparr>])
                   else (status2, comments2))
             else (status2, comments2))
      in a\<lparr>app_documentReviews := documentReviews,
           app_documentStatus := documentStatus,
           app_uploadedFiles := uploadedFiles,
           app_documentRejectionCount := documentRejectionCount,
           app_comments := comments3,
           app_status := status3,
           app_updatedAt := now\<rparr>)"

subsection \<open>\<open>POST /admin/application/:email/request-reupload\<close>\<close>

text \<open>The handler on the document found: no test comes before the writes.\<close>

definition mongo_request_reupload :: "time \<Rightarrow> kind list \<Rightarrow> string option \<Rightarrow> application \<Rightarrow> application" where
  "mongo_request_reupload now documents message a =
     a\<lparr>app_status := ''reupload-requested'',
       app_reuploadRequests := app_reuploadRequests a @
         [\<lparr>rq_documents = documents, rq_message = message, rq_requestedAt = now,
           rq_status = ''pending'', rq_completedAt = None, rq_rejectionCount = None\<rparr>],
       app_comments := app_comments a @
         [\<lparr>c_text = ReuploadRequested documents message, c_timestamp = now,
           c_user = ''Admin'', c_type = ''system''\<rparr>],
       app_updatedAt := now\<rparr>"

text \<open>
  The events of one application document that the claims speak of, and a run of them.  An
  upload that is answered with an error leaves the document as it was.
\<close>

datatype app_event =
    Review time "string option" kind string "string option"
  | Upload time upload_request

fun app_step :: "app_event \<Rightarrow> application \<Rightarrow> application" where
  "app_step (Review now adminUser documentType status comments) a =
     mongo_review_document now adminUser documentType status comments a"
| "app_step (Upload now req) a =
     (case submit_upload now req (Some a) of Inl e \<Rightarrow> a | Inr a' \<Rightarrow> a')"

fun app_run :: "app_event list \<Rightarrow> application \<Rightarrow> application" where
  "app_run [] a = a"
| "app_run (e # es) a = app_run es (app_step e a)"

section \<open>The editing router (\<open>editing-metadata.json\<close> and the download tokens)\<close>

text \<open>
  \<open>src/server/routes/application.js\<close>, lines 1459 to 1975.  An editing record is the file
  \<open>private/editing-uploads/<email>/editing-metadata.json\<close>; a handler gets \<open>None\<close> when the
  file does not exist.  Amounts are kept as the text that was sent: \<open>parseFloat\<close> and the
  printing of numbers are outside the model.
\<close>

record stored_file =
  sf_filename :: string
  sf_originalName :: string
  sf_path :: string
  sf_size :: nat
  sf_uploadedAt :: time

record pending_transaction =
  pt_id :: string
  pt_submittedAt :: time

record payment_details =
  pd_transactionId :: "string option"
  pd_amount :: "string option"
  pd_verifiedAt :: time

datatype editing_note =
    PaymentSubmitted string
  | EditedCvUploaded string
  | EditedCoverUploaded string
  | PaymentVerified "string option" "string option"

text \<open>A comment carries its author under \<open>user\<close> (the client) or under \<open>admin\<close>.\<close>

record editing_comment =
  ec_text :: editing_note
  ec_timestamp :: time
  ec_user :: "string option"
  ec_admin :: "string option"

text \<open>
  \<open>editedFiles.cv\<close> and \<open>editedFiles.cover\<close> are only ever written as \<open>{ final: {...} }\<close>, so
  the two fields hold the \<open>final\<close> file, if any.
\<close>

record editing_metadata =
  ed_fullName :: "string option"
  ed_email :: "string option"
  ed_phone :: "string option"
  ed_serviceType :: "string option"
  ed_amount :: "string option"
  ed_instructions :: string
  ed_originalFiles_cv :: "stored_file option"
  ed_originalFiles_cover :: "stored_file option"
  ed_editedFiles_cv :: "stored_file option"
  ed_editedFiles_cover :: "stored_file option"
  ed_status :: string
  ed_paymentStatus :: string
  ed_createdAt :: time
  ed_updatedAt :: time
  ed_comments :: "editing_comment list"
  ed_pendingTransaction :: "pending_transaction option"
  ed_paymentDetails :: "payment_details option"

definition stored :: "time \<Rightarrow> multer_file \<Rightarrow> stored_file" where
  "stored now file =
     \<lparr>sf_filename = mf_filename file, sf_originalName = mf_originalname file,
      sf_path = mf_path file, sf_size = mf_size file, sf_uploadedAt = now\<rparr>"

record editing_request =
  er_fullName :: "string option"
  er_email :: "string option"
  er_phone :: "string option"
  er_serviceType :: "string option"
  er_instructions :: "string option"
  er_amount :: "string option"
  er_cv :: "multer_file option"
  er_cover :: "multer_file option"

text \<open>\<open>POST /request\<close>\<close>

definition submit_request :: "time \<Rightarrow> editing_request \<Rightarrow> editing_metadata option \<Rightarrow> error + editing_metadata" where
  "submit_request now req existing =
     (case existing of
        Some m \<Rightarrow> Inl EditingRequestExists
      | None \<Rightarrow>
          Inr \<lparr>ed_fullName = er_fullName req, ed_email = er_email req, ed_phone = er_phone req,
               ed_serviceType = er_serviceType req,
               ed_amount = er_amount req,
               ed_instructions = or_else (er_instructions req) [],
               ed_originalFiles_cv = map_option (stored now) (er_cv req),
               ed_originalFiles_cover = map_option (stored now) (er_cover req),
               ed_editedFiles_cv = None, ed_editedFiles_cover = None,
               ed_status = ''pending'', ed_paymentStatus = ''pending'',
               ed_createdAt = now, ed_updatedAt = now, ed_comments = [],
               ed_pendingTransaction = None, ed_paymentDetails = None\<rparr>)"

text \<open>\<open>POST /submit-payment/:email\<close>\<close>

definition submit_payment :: "time \<Rightarrow> string option \<Rightarrow> editing_metadata option \<Rightarrow> error + editing_metadata" where
  "submit_payment now transactionId existing =
     (if \<not> truthy transactionId then Inl TransactionIdRequired
      else case existing of
             None \<Rightarrow> Inl EditingRequestNotFound
           | Some m \<Rightarrow>
               Inr (m\<lparr>ed_pendingTransaction :=
                         Some \<lparr>pt_id = or_else transactionId [], pt_submittedAt = now\<rparr>,
                       ed_comments := ed_comments m @
                         [\<lparr>ec_text = PaymentSubmitted (or_else transactionId []),
                           ec_timestamp = now, ec_user = Some ''Client'', ec_admin = None\<rparr>],
                       ed_updatedAt := now\<rparr>))"

text \<open>\<open>POST /upload-edited/:email\<close>\<close>

definition upload_edited ::
    "time \<Rightarrow> multer_file option \<Rightarrow> multer_file option \<Rightarrow> editing_metadata option \<Rightarrow> error + editing_metadata" where
  "upload_edited now edited_cv edited_cover existing =
     (case existing of
        None \<Rightarrow> Inl EditingRequestNotFound
      | Some m \<Rightarrow>
          (let m1 = (case edited_cv of None \<Rightarrow> m
                     | Some file \<Rightarrow>
                         m\<lparr>ed_editedFiles_cv := Some (stored now file),
                           ed_comments := ed_comments m @
                             [\<lparr>ec_text = EditedCvUploaded (mf_originalname file),
                               ec_timestamp = now, ec_user = None, ec_admin = Some ''Admin''\<rparr>]\<rparr>);
               m2 = (case edited_cover of None \<Rightarrow> m1
                     | Some file \<Rightarrow>
                         m1\<lparr>ed_editedFiles_cover := Some (stored now file),
                            ed_comments := ed_comments m1 @
                              [\<lparr>ec_text = EditedCoverUploaded (mf_originalname file),
                                ec_timestamp = now, ec_user = None, ec_admin = Some ''Admin''\<rparr>]\<rparr>);
               serviceType = ed_serviceType m2;
               allUploaded =
                 (\<not> ((serviceType = Some ''cv'' \<or> serviceType = Some ''both'') \<and>
                      ed_editedFiles_cv m2 = None) \<and>
                  \<not> ((serviceType = Some ''cover'' \<or> serviceType = Some ''both'') \<and>
                      ed_editedFiles_cover m2 = None))
           in Inr (m2\<lparr>ed_status := (if allUploaded then ''editing_completed'' else ''editing_in_progress''),
                      ed_updatedAt := now\<rparr>)))"

text \<open>
  \<open>POST /verify-payment/:email\<close>: after the test that the record exists there is no other
  test; \<open>metadata.pendingTransaction?.id\<close> is read only to fill in a missing transaction id.
\<close>

definition verify_payment ::
    "time \<Rightarrow> string option \<Rightarrow> string option \<Rightarrow> editing_metadata option \<Rightarrow> error + editing_metadata" where
  "verify_payment now transactionId amount existing =
     (case existing of
        None \<Rightarrow> Inl EditingRequestNotFound
      | Some m \<Rightarrow>
          (let txid = (if truthy transactionId then transactionId
                       else map_option pt_id (ed_pendingTransaction m))
           in Inr (m\<lparr>ed_paymentStatus := ''paid'',
                     ed_status := ''editing_paid'',
                     ed_paymentDetails :=
                       Some \<lparr>pd_transactionId = txid, pd_amount = amount, pd_verifiedAt = now\<rparr>,
                     ed_comments := ed_comments m @
                       [\<lparr>ec_text = PaymentVerified amount txid, ec_timestamp = now,
                         ec_user = None, ec_admin = Some ''Admin''\<rparr>],
                     ed_pendingTransaction := None,
                     ed_updatedAt := now\<rparr>)))"

text \<open>The four requests that write an editing record, and one step of a record under them.\<close>

datatype editing_op =
    SubmitRequest editing_request
  | SubmitPayment "string option"
  | UploadEdited "multer_file option" "multer_file option"
  | VerifyPayment "string option" "string option"

fun editing_step :: "time \<Rightarrow> editing_op \<Rightarrow> editing_metadata option \<Rightarrow> error + editing_metadata" where
  "editing_step now (SubmitRequest req) existing = submit_request now req existing"
| "editing_step now (SubmitPayment transactionId) existing = submit_payment now transactionId existing"
| "editing_step now (UploadEdited edited_cv edited_cover) existing =
     upload_edited now edited_cv edited_cover existing"
| "editing_step now (VerifyPayment transactionId amount) existing =
     verify_payment now transactionId amount existing"

subsection \<open>Download tokens\<close>

text \<open>
  \<open>downloadTokens\<close> is a \<open>Map\<close> from token to its data, global to the router.  The random
  token (\<open>crypto.randomBytes(32).toString('hex')\<close>) is an argument of the model.
\<close>

record token_data =
  td_email :: string
  td_expiresAt :: time
  td_used :: bool
  td_files_cv :: "string option"
  td_files_cover :: "string option"

type_synonym tokens = "string \<rightharpoonup> token_data"




text \<open>The hourly sweep: \<open>if (now > data.expiresAt) downloadTokens.delete(token)\<close>.\<close>

definition sweep :: "time \<Rightarrow> tokens \<Rightarrow> tokens" where
  "sweep now downloadTokens =
     (\<lambda>token. case downloadTokens token of
                 None \<Rightarrow> None
               | Some data \<Rightarrow> if now > td_expiresAt data then None else Some data)"

section \<open>Example records\<close>

text \<open>Concrete records and requests, used where a statement is evaluated.\<close>

definition example_file :: "string \<Rightarrow> nat \<Rightarrow> file_record" where
  "example_file name n =
     \<lparr>f_filename = name, f_originalName = name, f_size = 1000, f_path = ''uploads/'' @ name,
      f_uploadNumber = n, f_uploadedAt = 0, f_status = ''pending'', f_reviewComments = None,
      f_reviewedAt = None\<rparr>"

definition required_files :: "(kind \<times> file_record list) list" where
  "required_files =
     [(''passport'', [example_file ''passport.pdf'' 1]), (''photo'', [example_file ''photo.png'' 1]),
      (''cv'', [example_file ''cv.pdf'' 1]), (''qualifications'', [example_file ''degree.pdf'' 1])]"

text \<open>A file-backed record on which nothing was reviewed yet.\<close>

definition md_fresh :: metadata where
  "md_fresh = \<lparr>md_status = ''received'', md_documentReviews = [], md_documentRejectionCount = [],
               md_reuploadRequests = [], md_uploadedFiles = required_files, md_updatedAt = 0\<rparr>"

text \<open>The same record after its \<open>cv\<close> was rejected at time 1 with the comment \<open>blurry\<close>.\<close>

definition md_cv_rejected :: metadata where
  "md_cv_rejected =
     \<lparr>md_status = ''changes-required'',
      md_documentReviews =
        [(''cv'', \<lparr>rv_status = ''rejected'', rv_comments = ''blurry'', rv_reviewedAt = 1,
                   rv_reviewedBy = ''Admin'', rv_rejectionCount = 1\<rparr>)],
      md_documentRejectionCount = [(''cv'', 1)],
      md_reuploadRequests =
        [\<lparr>rq_documents = [''cv''], rq_message = Some ''blurry'', rq_requestedAt = 1,
          rq_status = ''pending'', rq_completedAt = None, rq_rejectionCount = Some [(''cv'', 1)]\<rparr>],
      md_uploadedFiles = required_files,
      md_updatedAt = 1\<rparr>"




text \<open>An application document of the application router, in its first upload round.\<close>

definition app_alice :: application where
  "app_alice =
     \<lparr>app_personalInfo =
        \<lparr>pi_fullName = ''Alice Doe'', pi_email = ''alice@example.com'', pi_phone = ''+100200300'',
         pi_age = Some 30, pi_gender = ''female'', pi_maritalStatus = ''single'',
         pi_country = ''Kenya'', pi_visaType = ''work''\<rparr>,
      app_jobPreferences =
        Some \<lparr>jp_preferredCountry = Some ''Canada'', jp_preferredJob = Some ''Nurses'',
              jp_additionalInfo = Some []\<rparr>,
      app_status = ''received'',
      app_uploadCount = 1,
      app_uploadedFiles = required_files,
      app_uploadHistory =
        [\<lparr>uh_timestamp = 0, uh_files = [''passport'', ''photo'', ''cv'', ''qualifications'']\<rparr>],
      app_mode = ''application'',
      app_createdAt = 0,
      app_updatedAt = 0,
      app_lastUploadAt = None,
      app_documentReviews = [],
      app_documentStatus = [],
      app_documentRejectionCount = [],
      app_comments = [],
      app_reuploadRequests = []\<rparr>"

text \<open>A re-upload of the \<open>cv\<close> by the same applicant.\<close>

definition upload_cv :: upload_request where
  "upload_cv =
     \<lparr>r_fullName = Some ''Alice Doe'', r_email = Some ''alice@example.com'',
      r_phone = Some ''+100200300'', r_age = Some ''30'', r_gender = Some ''female'',
      r_maritalStatus = Some ''single'', r_country = Some ''Kenya'', r_visaType = Some ''work'',
      r_preferredCountry = None, r_preferredJob = None, r_additionalInfo = None, r_mode = None,
      r_files = [(''cv'', [\<lparr>mf_filename = ''cv_2.pdf'', mf_originalname = ''cv.pdf'',
                            mf_size = 2000, mf_path = ''uploads/cv_2.pdf''\<rparr>])]\<rparr>"

text \<open>The same document after three upload rounds.\<close>

definition app_alice_3 :: application where
  "app_alice_3 = app_alice\<lparr>app_uploadCount := 3\<rparr>"



text \<open>The same document with an approved \<open>cv\<close>.\<close>

definition app_cv_approved :: application where
  "app_cv_approved = mongo_review_document 1 None ''cv'' ''approved'' None app_alice"

text \<open>An editing record for the service \<open>cv\<close>, with the edited CV uploaded and no transaction submitted.\<close>

definition ed_bob :: editing_metadata where
  "ed_bob =
     \<lparr>ed_fullName = Some ''Bob Roe'', ed_email = Some ''bob@example.com'', ed_phone = Some ''+400500600'',
      ed_serviceType = Some ''cv'', ed_amount = Some ''20'', ed_instructions = [],
      ed_originalFiles_cv = None, ed_originalFiles_cover = None,
      ed_editedFiles_cv =
        Some \<lparr>sf_filename = ''final_cv.pdf'', sf_originalName = ''cv.pdf'',
              sf_path = ''private/final_cv.pdf'', sf_size = 3000, sf_uploadedAt = 2\<rparr>,
      ed_editedFiles_cover = None,
      ed_status = ''editing_completed'', ed_paymentStatus = ''pending'',
      ed_createdAt = 1, ed_updatedAt = 2, ed_comments = [],
      ed_pendingTransaction = None, ed_paymentDetails = None\<rparr>"

text \<open>The record after \<open>POST /verify-payment\<close> at time 3, as \<^const>\<open>verify_payment\<close> leaves it.\<close>

definition ed_bob_paid :: editing_metadata where
  "ed_bob_paid =
     ed_bob\<lparr>ed_paymentStatus := ''paid'', ed_status := ''editing_paid'',
            ed_paymentDetails :=
              Some \<lparr>pd_transactionId = Some ''TX1'', pd_amount = Some ''20'', pd_verifiedAt = 3\<rparr>,
            ed_comments := [\<lparr>ec_text = PaymentVerified (Some ''20'') (Some ''TX1''), ec_timestamp = 3,
                             ec_user = None, ec_admin = Some ''Admin''\<rparr>],
            ed_pendingTransaction := None,
            ed_updatedAt := 3\<rparr>"

section \<open>Properties of the file-backed admin router\<close>

subsection \<open>The search for a pending request\<close>

lemma sort_sort [simp]: "sort (sort xs) = sort (xs::'a::linorder list)"
  by (simp add: sorted_sort_id)

lemma sorted_docs_simps [simp]:
  "rq_status (sorted_docs r) = rq_status r"
  "rq_documents (sorted_docs r) = sort (rq_documents r)"
  "sorted_docs (sorted_docs r) = sorted_docs r"
  by (simp_all add: sorted_docs_def)

lemma pending_match_found:
  "fst (pending_match w rs) \<longleftrightarrow>
     (\<exists>r\<in>set rs. rq_status r = ''pending'' \<and> sort (rq_documents r) = sort w)"
proof (induction rs arbitrary: w)
  case Nil
  show ?case by simp
next
  case (Cons r rs)
  have a: "fst (pending_match (sort w) rs) \<longleftrightarrow>
     (\<exists>r\<in>set rs. rq_status r = ''pending'' \<and> sort (rq_documents r) = sort w)"
    using Cons.IH [of "sort w"] by simp
  have b: "fst (pending_match w rs) \<longleftrightarrow>
     (\<exists>r\<in>set rs. rq_status r = ''pending'' \<and> sort (rq_documents r) = sort w)"
    by (rule Cons.IH)
  show ?case
  proof (cases "rq_status r = ''pending''")
    case True
    then show ?thesis using a
      by (cases "pending_match (sort w) rs") (auto simp: Let_def)
  next
    case False
    then show ?thesis using b
      by (cases "pending_match w rs") (auto simp: Let_def)
  qed
qed

lemma pending_match_requests:
  "map sorted_docs (fst (snd (pending_match w rs))) = map sorted_docs rs"
proof (induction rs arbitrary: w)
  case Nil
  show ?case by simp
next
  case (Cons r rs)
  have a: "map sorted_docs (fst (snd (pending_match (sort w) rs))) = map sorted_docs rs"
    by (rule Cons.IH)
  have b: "map sorted_docs (fst (snd (pending_match w rs))) = map sorted_docs rs"
    by (rule Cons.IH)
  have c: "sorted_docs (r\<lparr>rq_documents := sort (rq_documents r)\<rparr>) = sorted_docs r"
    by (simp add: sorted_docs_def)
  show ?case using a b c
    by (auto simp: Let_def split: prod.splits)
qed

lemma pending_match_wanted:
  "snd (snd (pending_match w rs)) = w \<or> snd (snd (pending_match w rs)) = sort w"
proof (induction rs arbitrary: w)
  case Nil
  show ?case by simp
next
  case (Cons r rs)
  have a: "snd (snd (pending_match (sort w) rs)) = sort w"
    using Cons.IH [of "sort w"] by simp
  have b: "snd (snd (pending_match w rs)) = w \<or> snd (snd (pending_match w rs)) = sort w"
    by (rule Cons.IH)
  show ?case using a b
    by (auto simp: Let_def split: prod.splits)
qed

lemma pending_match_length:
  "length (fst (snd (pending_match w rs))) = length rs"
  using arg_cong [OF pending_match_requests, of length w rs] by simp



lemma sort_eq_iff_set:
  assumes "distinct xs" and "distinct ys"
  shows "sort xs = sort ys \<longleftrightarrow> set xs = set (ys::'a::linorder list)"
proof
  assume "sort xs = sort ys"
  then have "set (sort xs) = set (sort ys)" by simp
  then show "set xs = set ys" by simp
next
  assume "set xs = set ys"
  then show "sort xs = sort ys"
    using assms by (intro sorted_distinct_set_unique) simp_all
qed

subsection \<open>Requests that stay\<close>

lemma still_needed_sorted_docs [simp]: "still_needed rv (sorted_docs r) = still_needed rv r"
  by (simp add: still_needed_def list_ex_iff)


lemma complete_request_not_pending [simp]: "rq_status (complete_request now r) \<noteq> ''pending''"
  by (simp add: complete_request_def)




subsection \<open>The reviews after a review\<close>

lemma review_document_reviews:
  "md_documentReviews (review_document now k s c m) =
     AList.update k
       \<lparr>rv_status = s, rv_comments = or_else c [], rv_reviewedAt = now, rv_reviewedBy = ''Admin'',
        rv_rejectionCount =
          count_or (md_documentRejectionCount (review_document now k s c m)) k 0\<rparr>
       (md_documentReviews m)"
  by (simp add: review_document_def Let_def case_prod_beta)

lemma review_document_counts:
  "md_documentRejectionCount (review_document now k s c m) =
     (if s = ''rejected''
      then AList.update k (count_or (md_documentRejectionCount m) k 0 + 1) (md_documentRejectionCount m)
      else md_documentRejectionCount m)"
  by (simp add: review_document_def Let_def case_prod_beta)













subsection \<open>The three branches of the review handler\<close>




subsection \<open>Rejecting the only rejected document\<close>


subsection \<open>What a review does to the requests\<close>




subsection \<open>Runs of approvals\<close>






subsection \<open>Asking for a re-upload\<close>

lemma request_reupload_fails_iff:
  "request_reupload now documents message m = Inl NoRejectedDocuments \<longleftrightarrow>
     (\<forall>d\<in>set documents. \<not> review_status_is (md_documentReviews m) ''rejected'' d)"
  by (auto simp: request_reupload_def Let_def filter_empty_conv split: prod.splits)

lemma request_reupload_existing:
  assumes "\<exists>r\<in>set (md_reuploadRequests m). rq_status r = ''pending'' \<and>
             sort (rq_documents r) =
             sort (filter (review_status_is (md_documentReviews m) ''rejected'') documents)"
      and "filter (review_status_is (md_documentReviews m) ''rejected'') documents \<noteq> []"
  shows "\<exists>m'. request_reupload now documents message m = Inr m' \<and>
              md_status m' = ''reupload-requested'' \<and>
              length (md_reuploadRequests m') = length (md_reuploadRequests m) \<and>
              map sorted_docs (md_reuploadRequests m') = map sorted_docs (md_reuploadRequests m)"
proof -
  let ?w = "filter (review_status_is (md_documentReviews m) ''rejected'') documents"
  obtain found reqs' docs' where pm: "pending_match ?w (md_reuploadRequests m) = (found, reqs', docs')"
    by (metis prod_cases3)
  have found using pending_match_found [of ?w "md_reuploadRequests m"] pm assms(1) by simp
  moreover have "map sorted_docs reqs' = map sorted_docs (md_reuploadRequests m)"
    using pending_match_requests [of ?w "md_reuploadRequests m"] pm by simp
  moreover have "length reqs' = length (md_reuploadRequests m)"
    using pending_match_length [of ?w "md_reuploadRequests m"] pm by simp
  ultimately show ?thesis
    using assms(2) by (simp add: request_reupload_def Let_def pm)
qed

lemma request_reupload_new:
  assumes "\<not> (\<exists>r\<in>set (md_reuploadRequests m). rq_status r = ''pending'' \<and>
             sort (rq_documents r) =
             sort (filter (review_status_is (md_documentReviews m) ''rejected'') documents))"
      and "filter (review_status_is (md_documentReviews m) ''rejected'') documents \<noteq> []"
  shows "\<exists>m' new. request_reupload now documents message m = Inr m' \<and>
              length (md_reuploadRequests m') = length (md_reuploadRequests m) + 1 \<and>
              map sorted_docs (md_reuploadRequests m') = map sorted_docs (md_reuploadRequests m) @ [new] \<and>
              rq_status new = ''pending'' \<and>
              rq_documents new = sort (filter (review_status_is (md_documentReviews m) ''rejected'') documents)"
proof -
  let ?w = "filter (review_status_is (md_documentReviews m) ''rejected'') documents"
  obtain found reqs' docs' where pm: "pending_match ?w (md_reuploadRequests m) = (found, reqs', docs')"
    by (metis prod_cases3)
  have "\<not> found" using pending_match_found [of ?w "md_reuploadRequests m"] pm assms(1) by simp
  moreover have "map sorted_docs reqs' = map sorted_docs (md_reuploadRequests m)"
    using pending_match_requests [of ?w "md_reuploadRequests m"] pm by simp
  moreover have "length reqs' = length (md_reuploadRequests m)"
    using pending_match_length [of ?w "md_reuploadRequests m"] pm by simp
  moreover have "sort docs' = sort ?w"
    using pending_match_wanted [of ?w "md_reuploadRequests m"] pm by auto
  ultimately show ?thesis
    using assms(2) by (simp add: request_reupload_def Let_def pm sorted_docs_def)
qed

section \<open>Properties of the application router\<close>

lemma count_or_update:
  "count_or (AList.update k n cs) d 0 = (if d = k then n else count_or cs d 0)"
  by (simp add: count_or_def update_conv')

lemma mongo_review_counts:
  "app_documentRejectionCount (mongo_review_document now u k s c a) =
     (if s = ''rejected''
      then AList.update k (count_or (app_documentRejectionCount a) k 0 + 1) (app_documentRejectionCount a)
      else app_documentRejectionCount a)"
  by (simp add: mongo_review_document_def Let_def case_prod_beta)




lemma submit_upload_counts:
  "submit_upload now req (Some a) = Inr a' \<Longrightarrow>
   app_documentRejectionCount a' = app_documentRejectionCount a"
  by (auto simp: submit_upload_def Let_def split: if_splits)

lemma app_step_counts:
  "count_or (app_documentRejectionCount a) d 0 \<le> count_or (app_documentRejectionCount (app_step e a)) d 0"
proof (cases e)
  case (Review now u k s c)
  then show ?thesis by (simp add: mongo_review_counts count_or_update)
next
  case (Upload now req)
  then show ?thesis
    by (cases "submit_upload now req (Some a)") (simp_all add: submit_upload_counts)
qed

lemma app_run_counts:
  "count_or (app_documentRejectionCount a) d 0 \<le> count_or (app_documentRejectionCount (app_run es a)) d 0"
proof (induction es arbitrary: a)
  case Nil
  show ?case by simp
next
  case (Cons e es)
  have "count_or (app_documentRejectionCount a) d 0 \<le> count_or (app_documentRejectionCount (app_step e a)) d 0"
    by (rule app_step_counts)
  also have "\<dots> \<le> count_or (app_documentRejectionCount (app_run es (app_step e a))) d 0"
    by (rule Cons.IH)
  finally show ?case by simp
qed

lemma review_documents_counts:
  "count_or (md_documentRejectionCount m) d 0 \<le>
   count_or (md_documentRejectionCount (review_documents evs m)) d 0"
proof (induction evs arbitrary: m)
  case Nil
  show ?case by simp
next
  case (Cons e evs)
  obtain now k s c where e: "e = (now, k, s, c)" by (metis prod_cases4)
  have "count_or (md_documentRejectionCount m) d 0 \<le>
        count_or (md_documentRejectionCount (review_document now k s c m)) d 0"
    by (simp add: review_document_counts count_or_update)
  also have "\<dots> \<le> count_or (md_documentRejectionCount (review_documents evs (review_document now k s c m))) d 0"
    by (rule Cons.IH)
  finally show ?case by (simp add: e)
qed

subsection \<open>Uploads\<close>

lemma map_of_spread:
  "distinct (map fst new) \<Longrightarrow> map_of (spread old new) = map_of old ++ map_of new"
proof (induction new arbitrary: old)
  case Nil
  show ?case by (simp add: spread_def)
next
  case (Cons p new)
  obtain k v where p: "p = (k, v)" by (cases p)
  have k: "k \<notin> dom (map_of new)" using Cons.prems by (simp add: p dom_map_of_conv_image_fst)
  have "map_of (spread old (p # new)) = map_of (spread (AList.update k v old) new)"
    by (simp add: spread_def p)
  also have "\<dots> = map_of (AList.update k v old) ++ map_of new"
    using Cons.prems by (intro Cons.IH) simp
  also have "\<dots> = map_of old ++ map_of (p # new)"
    using k by (auto simp: p update_conv' map_add_def fun_eq_iff split: option.splits)
  finally show ?case .
qed

lemma map_filter_keys:
  "map fst (List.map_filter (\<lambda>key. case f key of None \<Rightarrow> None | Some x \<Rightarrow> Some (key, g x)) ks) =
   filter (\<lambda>key. f key \<noteq> None) ks"
  by (induction ks) (auto simp: List.map_filter_simps split: option.splits)

lemma map_of_map_filter:
  "distinct ks \<Longrightarrow>
   map_of (List.map_filter (\<lambda>key. case f key of None \<Rightarrow> None | Some x \<Rightarrow> Some (key, g x)) ks) k =
     (if k \<in> set ks then map_option g (f k) else None)"
proof (induction ks)
  case Nil
  show ?case by (simp add: List.map_filter_simps)
next
  case (Cons a ks)
  then show ?case
    by (cases "f a") (auto simp: List.map_filter_simps)
qed

lemma uploadedFiles_of_keys:
  "map fst (uploadedFiles_of now n files) = filter (\<lambda>key. map_of files key \<noteq> None) documentFields"
  unfolding uploadedFiles_of_def by (rule map_filter_keys)

lemma uploadedFiles_of_distinct: "distinct (map fst (uploadedFiles_of now n files))"
  by (simp add: uploadedFiles_of_keys documentFields_def)

lemma map_of_uploadedFiles_of:
  "map_of (uploadedFiles_of now n files) k =
     (if k \<in> set documentFields then map_option (map (new_file now n)) (map_of files k) else None)"
  unfolding uploadedFiles_of_def
  by (rule map_of_map_filter) (simp add: documentFields_def)

lemma submit_upload_existing:
  assumes "submit_upload now req (Some a) = Inr a'"
  shows "app_uploadCount a' = app_uploadCount a + 1"
    and "app_uploadCount a' \<le> 3"
    and "app_status a' = ''received''"
    and "app_uploadedFiles a' =
           spread (app_uploadedFiles a) (uploadedFiles_of now (app_uploadCount a + 1) (r_files req))"
  using assms by (auto simp: submit_upload_def Let_def split: if_splits)

lemma submit_upload_new:
  assumes "submit_upload now req None = Inr a'"
  shows "app_uploadCount a' = 1" and "app_status a' = ''received''"
  using assms by (auto simp: submit_upload_def Let_def split: if_splits)

lemma submit_upload_limit:
  assumes "3 \<le> app_uploadCount a"
  shows "\<exists>e. submit_upload now req (Some a) = Inl e"
  using assms by (simp add: submit_upload_def Let_def)

lemma submit_upload_limit_error:
  assumes "3 \<le> app_uploadCount a" and "\<not> missing_fields req"
      and "emailRegex (or_else (r_email req) [])" and "r_mode req \<noteq> Some ''editing''"
      and "app_mode a \<noteq> ''editing''"
  shows "submit_upload now req (Some a) = Inl MaxUploadsReached"
  using assms by (simp add: submit_upload_def Let_def)

lemma post_upload_bound:
  assumes "\<forall>e a. db e = Some a \<longrightarrow> app_uploadCount a \<le> 3"
  shows "\<forall>e a. snd (post_upload now req db) e = Some a \<longrightarrow> app_uploadCount a \<le> 3"
proof (cases "submit_upload now req (db (or_else (r_email req) []))")
  case (Inl err)
  then show ?thesis using assms by (simp add: post_upload_def Let_def)
next
  case (Inr a')
  have "app_uploadCount a' \<le> 3"
  proof (cases "db (or_else (r_email req) [])")
    case None
    then show ?thesis using Inr submit_upload_new(1) [of now req a'] by simp
  next
    case (Some a)
    then show ?thesis using Inr submit_upload_existing(2) [of now req a a'] by simp
  qed
  then show ?thesis using assms Inr by (simp add: post_upload_def Let_def)
qed

lemma post_uploads_bound:
  assumes "\<forall>e a. db e = Some a \<longrightarrow> app_uploadCount a \<le> 3"
  shows "\<forall>e a. post_uploads reqs db e = Some a \<longrightarrow> app_uploadCount a \<le> 3"
  using assms
proof (induction reqs arbitrary: db)
  case Nil
  then show ?case by simp
next
  case (Cons r reqs)
  obtain now req where r: "r = (now, req)" by (cases r)
  have "\<forall>e a. snd (post_upload now req db) e = Some a \<longrightarrow> app_uploadCount a \<le> 3"
    using Cons.prems by (rule post_upload_bound)
  then have "\<forall>e a. post_uploads reqs (snd (post_upload now req db)) e = Some a \<longrightarrow> app_uploadCount a \<le> 3"
    by (rule Cons.IH)
  then show ?case by (simp add: r)
qed

subsection \<open>Reviews\<close>




section \<open>Properties of the editing router\<close>

lemma verify_payment_existing:
  "verify_payment now transactionId amount (Some m) =
     Inr (m\<lparr>ed_paymentStatus := ''paid'',
            ed_status := ''editing_paid'',
            ed_paymentDetails :=
              Some \<lparr>pd_transactionId = (if truthy transactionId then transactionId
                                        else map_option pt_id (ed_pendingTransaction m)),
                    pd_amount = amount, pd_verifiedAt = now\<rparr>,
            ed_comments := ed_comments m @
              [\<lparr>ec_text = PaymentVerified amount
                           (if truthy transactionId then transactionId
                            else map_option pt_id (ed_pendingTransaction m)),
                ec_timestamp = now, ec_user = None, ec_admin = Some ''Admin''\<rparr>],
            ed_pendingTransaction := None,
            ed_updatedAt := now\<rparr>)"
  by (simp add: verify_payment_def Let_def)

lemma submit_request_status:
  "submit_request now req existing = Inr m' \<Longrightarrow> ed_status m' = ''pending''"
  by (auto simp: submit_request_def split: option.splits)

lemma submit_payment_status:
  "submit_payment now transactionId existing = Inr m' \<Longrightarrow>
   \<exists>m. existing = Some m \<and> ed_status m' = ed_status m"
  by (auto simp: submit_payment_def split: option.splits if_splits)

lemma upload_edited_status:
  "upload_edited now edited_cv edited_cover existing = Inr m' \<Longrightarrow>
   ed_status m' = ''editing_completed'' \<or> ed_status m' = ''editing_in_progress''"
  by (auto simp: upload_edited_def Let_def split: option.splits if_splits)

lemma editing_step_paid:
  assumes "editing_step now op existing = Inr m'"
      and "ed_status m' = ''editing_paid''"
      and "\<forall>m. existing = Some m \<longrightarrow> ed_status m \<noteq> ''editing_paid''"
  shows "\<exists>transactionId amount. op = VerifyPayment transactionId amount"
proof (cases op)
  case (SubmitRequest req)
  then show ?thesis using assms submit_request_status [of now req existing m'] by simp
next
  case (SubmitPayment transactionId)
  then show ?thesis using assms submit_payment_status [of now transactionId existing m'] by auto
next
  case (UploadEdited edited_cv edited_cover)
  then show ?thesis using assms upload_edited_status [of now edited_cv edited_cover existing m'] by auto
next
  case (VerifyPayment transactionId amount)
  then show ?thesis by simp
qed


section \<open>The claims\<close>

subsection \<open>C1: rejecting the only rejected document\<close>




subsection \<open>C2: approving everything\<close>




subsection \<open>C7: requests that are no longer needed\<close>




subsection \<open>C3: at most three uploads\<close>

text \<open>
  Claim C3.  \<open>POST /upload\<close>: if no stored application has an \<open>uploadCount\<close> above 3, none
  has one after any run of upload requests, whether they succeed or fail (a new application
  starts at 1, a re-upload adds 1 and is refused when that would exceed 3).  An upload for
  an application whose \<open>uploadCount\<close> is 3 or more is always answered with an error and leaves
  the collection, and so every field of the record, as it was; when the request passes the
  checks that come before the lookup (no required field missing, a well-formed e-mail
  address, not the editing mode) and the record is not an editing record, the error is
  \<open>MAX_UPLOADS_REACHED\<close>, with status 400.
\<close>

theorem upload_count_capped:
  "((\<forall>e a. db e = Some a \<longrightarrow> app_uploadCount a \<le> 3) \<longrightarrow>
      (\<forall>e a. post_uploads reqs db e = Some a \<longrightarrow> app_uploadCount a \<le> 3)) \<and>
   (db (or_else (r_email req) []) = Some a \<and> 3 \<le> app_uploadCount a \<longrightarrow>
      (\<exists>e. fst (post_upload now req db) = Inl e) \<and> snd (post_upload now req db) = db) \<and>
   (db (or_else (r_email req) []) = Some a \<and> 3 \<le> app_uploadCount a \<and>
    \<not> missing_fields req \<and> emailRegex (or_else (r_email req) []) \<and>
    r_mode req \<noteq> Some ''editing'' \<and> app_mode a \<noteq> ''editing'' \<longrightarrow>
      fst (post_upload now req db) = Inl MaxUploadsReached \<and> http_status MaxUploadsReached = 400)"
proof (intro conjI impI)
  assume "\<forall>e a. db e = Some a \<longrightarrow> app_uploadCount a \<le> 3"
  then show "\<forall>e a. post_uploads reqs db e = Some a \<longrightarrow> app_uploadCount a \<le> 3"
    by (rule post_uploads_bound)
next
  assume h: "db (or_else (r_email req) []) = Some a \<and> 3 \<le> app_uploadCount a"
  then obtain e where e: "submit_upload now req (Some a) = Inl e"
    using submit_upload_limit [of a now req] by blast
  show "\<exists>e. fst (post_upload now req db) = Inl e"
    using h e by (simp add: post_upload_def Let_def)
  show "snd (post_upload now req db) = db"
    using h e by (simp add: post_upload_def Let_def)
next
  assume h: "db (or_else (r_email req) []) = Some a \<and> 3 \<le> app_uploadCount a \<and>
    \<not> missing_fields req \<and> emailRegex (or_else (r_email req) []) \<and>
    r_mode req \<noteq> Some ''editing'' \<and> app_mode a \<noteq> ''editing''"
  then have "submit_upload now req (Some a) = Inl MaxUploadsReached"
    by (intro submit_upload_limit_error) simp_all
  then show "fst (post_upload now req db) = Inl MaxUploadsReached"
    using h by (simp add: post_upload_def Let_def)
next
  show "http_status MaxUploadsReached = 400" by simp
qed

text \<open>
  The theorem on the collection that holds \<^const>\<open>app_alice_3\<close>, whose \<open>uploadCount\<close> is 3,
  and the re-upload \<^const>\<open>upload_cv\<close>: the fourth upload is refused and nothing changes.
  Starting from \<^const>\<open>app_alice\<close>, whose \<open>uploadCount\<close> is 1, four re-uploads in a row end
  with an \<open>uploadCount\<close> of 3.
\<close>

theorem upload_count_capped_witness:
  "app_uploadCount app_alice_3 = 3 \<and>
   \<not> missing_fields upload_cv \<and> emailRegex ''alice@example.com'' \<and>
   fst (post_upload 9 upload_cv [''alice@example.com'' \<mapsto> app_alice_3]) = Inl MaxUploadsReached \<and>
   snd (post_upload 9 upload_cv [''alice@example.com'' \<mapsto> app_alice_3]) =
     [''alice@example.com'' \<mapsto> app_alice_3] \<and>
   map_option app_uploadCount
     (post_uploads [(9, upload_cv), (10, upload_cv), (11, upload_cv), (12, upload_cv)]
        [''alice@example.com'' \<mapsto> app_alice] ''alice@example.com'') = Some 3"
proof -
  have e: "or_else (r_email upload_cv) [] = ''alice@example.com''"
    by (simp add: upload_cv_def or_else_def)
  have c: "app_uploadCount app_alice_3 = 3" by (simp add: app_alice_3_def)
  have m: "\<not> missing_fields upload_cv" by (simp add: missing_fields_def upload_cv_def truthy_def)
  have r: "emailRegex ''alice@example.com''" by code_simp
  have o: "r_mode upload_cv \<noteq> Some ''editing''" by (simp add: upload_cv_def)
  have p: "app_mode app_alice_3 \<noteq> ''editing''" by (simp add: app_alice_3_def app_alice_def)
  have 1: "fst (post_upload 9 upload_cv [''alice@example.com'' \<mapsto> app_alice_3]) = Inl MaxUploadsReached \<and>
     snd (post_upload 9 upload_cv [''alice@example.com'' \<mapsto> app_alice_3]) =
       [''alice@example.com'' \<mapsto> app_alice_3]"
    using upload_count_capped
      [where db = "[''alice@example.com'' \<mapsto> app_alice_3]" and reqs = "[]" and req = upload_cv
         and a = app_alice_3 and now = 9]
      e c m r o p
    by simp
  have b: "\<forall>e a. [''alice@example.com'' \<mapsto> app_alice] e = Some a \<longrightarrow> app_uploadCount a \<le> 3"
    by (simp add: app_alice_def)
  have 2: "map_option app_uploadCount
     (post_uploads [(9, upload_cv), (10, upload_cv), (11, upload_cv), (12, upload_cv)]
        [''alice@example.com'' \<mapsto> app_alice] ''alice@example.com'') = Some 3"
    by code_simp
  have "\<forall>e a. post_uploads [(9, upload_cv), (10, upload_cv), (11, upload_cv), (12, upload_cv)]
           [''alice@example.com'' \<mapsto> app_alice] e = Some a \<longrightarrow> app_uploadCount a \<le> 3"
    using upload_count_capped
      [where db = "[''alice@example.com'' \<mapsto> app_alice]"
         and reqs = "[(9, upload_cv), (10, upload_cv), (11, upload_cv), (12, upload_cv)]"] b
    by blast
  then show ?thesis using c m r 1 2 by blast
qed

subsection \<open>C8: what an upload does to the stored files\<close>

text \<open>
  Claim C8, as amended.  A successful \<open>POST /upload\<close> for an existing application replaces
  the file list of every kind that comes with files in this upload (one of the seven document
  fields) by the list of the newly uploaded file records, and leaves the file list of every
  other kind as it was.
\<close>

theorem upload_replaces_touched_kinds:
  assumes "submit_upload now req (Some a) = Inr a'"
  shows "map_of (app_uploadedFiles a') k =
           (if k \<in> set documentFields \<and> map_of (r_files req) k \<noteq> None
            then map_option (map (new_file now (app_uploadCount a + 1))) (map_of (r_files req) k)
            else map_of (app_uploadedFiles a) k)"
proof -
  have "app_uploadedFiles a' =
          spread (app_uploadedFiles a) (uploadedFiles_of now (app_uploadCount a + 1) (r_files req))"
    using assms by (rule submit_upload_existing(4))
  then have "map_of (app_uploadedFiles a') =
          map_of (app_uploadedFiles a) ++
          map_of (uploadedFiles_of now (app_uploadCount a + 1) (r_files req))"
    by (simp add: map_of_spread uploadedFiles_of_distinct)
  then show ?thesis
    by (auto simp: map_add_def map_of_uploadedFiles_of split: option.splits)
qed

text \<open>
  The theorem on \<^const>\<open>app_alice\<close> and the re-upload \<^const>\<open>upload_cv\<close> at time 9: the
  \<open>passport\<close> list is the old one, the \<open>cv\<close> list is the new file alone.
\<close>

theorem upload_replaces_touched_kinds_witness:
  "submit_upload 9 upload_cv (Some app_alice) = Inr (app_step (Upload 9 upload_cv) app_alice) \<and>
   map_of (app_uploadedFiles (app_step (Upload 9 upload_cv) app_alice)) ''passport'' =
     Some [example_file ''passport.pdf'' 1] \<and>
   map_of (app_uploadedFiles (app_step (Upload 9 upload_cv) app_alice)) ''cv'' =
     Some [\<lparr>f_filename = ''cv_2.pdf'', f_originalName = ''cv.pdf'', f_size = 2000,
            f_path = ''uploads/cv_2.pdf'', f_uploadNumber = 2, f_uploadedAt = 9,
            f_status = ''pending'', f_reviewComments = None, f_reviewedAt = None\<rparr>]"
proof -
  have "isl (submit_upload 9 upload_cv (Some app_alice)) = False"
    by code_simp
  then have ok: "submit_upload 9 upload_cv (Some app_alice) = Inr (app_step (Upload 9 upload_cv) app_alice)"
    by (cases "submit_upload 9 upload_cv (Some app_alice)") simp_all
  have p: "map_of (app_uploadedFiles (app_step (Upload 9 upload_cv) app_alice)) ''passport'' =
           Some [example_file ''passport.pdf'' 1]"
    using upload_replaces_touched_kinds [OF ok, of "''passport''"]
    by (simp add: upload_cv_def app_alice_def required_files_def documentFields_def)
  have c: "map_of (app_uploadedFiles (app_step (Upload 9 upload_cv) app_alice)) ''cv'' =
     Some [\<lparr>f_filename = ''cv_2.pdf'', f_originalName = ''cv.pdf'', f_size = 2000,
            f_path = ''uploads/cv_2.pdf'', f_uploadNumber = 2, f_uploadedAt = 9,
            f_status = ''pending'', f_reviewComments = None, f_reviewedAt = None\<rparr>]"
    using upload_replaces_touched_kinds [OF ok, of "''cv''"]
    by (simp add: upload_cv_def app_alice_def required_files_def documentFields_def new_file_def)
  show ?thesis using ok p c by blast
qed

text \<open>
  C8 as stated fails on \<^const>\<open>app_alice\<close>, whose \<open>cv\<close> list holds the file \<open>cv.pdf\<close> of the first
  upload: the re-upload \<^const>\<open>upload_cv\<close> succeeds (it is upload 2), and afterwards the list
  holds the new file only; the stored record of the first one is discarded.
\<close>

theorem reupload_discards_previous_files:
  "map_of (app_uploadedFiles app_alice) ''cv'' = Some [example_file ''cv.pdf'' 1] \<and>
   app_uploadCount (app_step (Upload 9 upload_cv) app_alice) = 2 \<and>
   map_of (app_uploadedFiles (app_step (Upload 9 upload_cv) app_alice)) ''cv'' =
     Some [\<lparr>f_filename = ''cv_2.pdf'', f_originalName = ''cv.pdf'', f_size = 2000,
            f_path = ''uploads/cv_2.pdf'', f_uploadNumber = 2, f_uploadedAt = 9,
            f_status = ''pending'', f_reviewComments = None, f_reviewedAt = None\<rparr>]"
  by code_simp

subsection \<open>C4: asking for a re-upload\<close>

text \<open>
  Claim C4, as amended.  The file-backed \<open>request-reupload\<close> handler answers 400 (no rejected
  documents selected) when none of the given kinds has the review status \<open>rejected\<close>.  It
  compares the given kinds that are rejected, sorted, with the sorted documents of the pending
  requests; when a pending request matches (for lists without repetition: when its document
  set is the set of the given kinds that are rejected) it appends nothing: the list keeps its
  length and its requests, up to the order of the documents inside a request, and the status
  becomes \<open>reupload-requested\<close>.  The handler of the application router does neither: it
  always appends the request it is given and sets \<open>reupload-requested\<close>.
\<close>

theorem request_reupload_checks:
  "((\<forall>d\<in>set documents. \<not> review_status_is (md_documentReviews m) ''rejected'' d) \<longrightarrow>
      request_reupload now documents message m = Inl NoRejectedDocuments \<and>
      http_status NoRejectedDocuments = 400) \<and>
   ((\<exists>r\<in>set (md_reuploadRequests m). rq_status r = ''pending'' \<and>
        sort (rq_documents r) =
        sort (filter (review_status_is (md_documentReviews m) ''rejected'') documents)) \<and>
    (\<exists>d\<in>set documents. review_status_is (md_documentReviews m) ''rejected'' d) \<longrightarrow>
      (\<exists>m'. request_reupload now documents message m = Inr m' \<and>
            md_status m' = ''reupload-requested'' \<and>
            length (md_reuploadRequests m') = length (md_reuploadRequests m) \<and>
            map sorted_docs (md_reuploadRequests m') = map sorted_docs (md_reuploadRequests m))) \<and>
   (distinct documents \<and>
    (\<exists>r\<in>set (md_reuploadRequests m). rq_status r = ''pending'' \<and> distinct (rq_documents r) \<and>
        set (rq_documents r) =
        {d \<in> set documents. review_status_is (md_documentReviews m) ''rejected'' d}) \<and>
    (\<exists>d\<in>set documents. review_status_is (md_documentReviews m) ''rejected'' d) \<longrightarrow>
      (\<exists>m'. request_reupload now documents message m = Inr m' \<and>
            md_status m' = ''reupload-requested'' \<and>
            length (md_reuploadRequests m') = length (md_reuploadRequests m) \<and>
            map sorted_docs (md_reuploadRequests m') = map sorted_docs (md_reuploadRequests m))) \<and>
   app_reuploadRequests (mongo_request_reupload now documents message a) =
     app_reuploadRequests a @
       [\<lparr>rq_documents = documents, rq_message = message, rq_requestedAt = now,
         rq_status = ''pending'', rq_completedAt = None, rq_rejectionCount = None\<rparr>] \<and>
   app_status (mongo_request_reupload now documents message a) = ''reupload-requested''"
proof (intro conjI impI)
  assume "\<forall>d\<in>set documents. \<not> review_status_is (md_documentReviews m) ''rejected'' d"
  then show "request_reupload now documents message m = Inl NoRejectedDocuments"
    by (simp add: request_reupload_fails_iff)
next
  show "http_status NoRejectedDocuments = 400" by simp
next
  assume h: "(\<exists>r\<in>set (md_reuploadRequests m). rq_status r = ''pending'' \<and>
        sort (rq_documents r) =
        sort (filter (review_status_is (md_documentReviews m) ''rejected'') documents)) \<and>
    (\<exists>d\<in>set documents. review_status_is (md_documentReviews m) ''rejected'' d)"
  then have "filter (review_status_is (md_documentReviews m) ''rejected'') documents \<noteq> []"
    by (simp add: filter_empty_conv)
  with h show "\<exists>m'. request_reupload now documents message m = Inr m' \<and>
            md_status m' = ''reupload-requested'' \<and>
            length (md_reuploadRequests m') = length (md_reuploadRequests m) \<and>
            map sorted_docs (md_reuploadRequests m') = map sorted_docs (md_reuploadRequests m)"
    by (intro request_reupload_existing) simp_all
next
  let ?w = "filter (review_status_is (md_documentReviews m) ''rejected'') documents"
  assume h: "distinct documents \<and>
    (\<exists>r\<in>set (md_reuploadRequests m). rq_status r = ''pending'' \<and> distinct (rq_documents r) \<and>
        set (rq_documents r) =
        {d \<in> set documents. review_status_is (md_documentReviews m) ''rejected'' d}) \<and>
    (\<exists>d\<in>set documents. review_status_is (md_documentReviews m) ''rejected'' d)"
  then obtain r where r: "r \<in> set (md_reuploadRequests m)" "rq_status r = ''pending''"
      "distinct (rq_documents r)" "set (rq_documents r) = set ?w"
    by auto
  have "distinct ?w" using h by simp
  then have "sort (rq_documents r) = sort ?w"
    using r(3,4) by (simp add: sort_eq_iff_set)
  then have a: "\<exists>r\<in>set (md_reuploadRequests m). rq_status r = ''pending'' \<and>
        sort (rq_documents r) = sort ?w"
    using r(1,2) by blast
  have b: "?w \<noteq> []" using h by (simp add: filter_empty_conv)
  show "\<exists>m'. request_reupload now documents message m = Inr m' \<and>
            md_status m' = ''reupload-requested'' \<and>
            length (md_reuploadRequests m') = length (md_reuploadRequests m) \<and>
            map sorted_docs (md_reuploadRequests m') = map sorted_docs (md_reuploadRequests m)"
    using a b by (rule request_reupload_existing)
next
  show "app_reuploadRequests (mongo_request_reupload now documents message a) =
     app_reuploadRequests a @
       [\<lparr>rq_documents = documents, rq_message = message, rq_requestedAt = now,
         rq_status = ''pending'', rq_completedAt = None, rq_rejectionCount = None\<rparr>]"
    by (simp add: mongo_request_reupload_def)
next
  show "app_status (mongo_request_reupload now documents message a) = ''reupload-requested''"
    by (simp add: mongo_request_reupload_def)
qed

text \<open>
  The theorem on the file-backed records: on \<^const>\<open>md_fresh\<close>, where nothing is rejected, the
  request for \<open>cv\<close> is refused; on \<^const>\<open>md_cv_rejected\<close>, which has a pending request for
  \<open>[cv]\<close>, the request for \<open>cv\<close> succeeds and the list still has one request.
\<close>

theorem request_reupload_checks_witness:
  "request_reupload 7 [''cv''] (Some ''please'') md_fresh = Inl NoRejectedDocuments \<and>
   review_status_is (md_documentReviews md_cv_rejected) ''rejected'' ''cv'' \<and>
   isl (request_reupload 7 [''cv''] (Some ''please'') md_cv_rejected) = False \<and>
   length (md_reuploadRequests (projr (request_reupload 7 [''cv''] (Some ''please'') md_cv_rejected))) = 1"
proof -
  have a: "\<forall>d\<in>set [''cv'']. \<not> review_status_is (md_documentReviews md_fresh) ''rejected'' d"
    by (simp add: review_status_is_def md_fresh_def)
  have b: "review_status_is (md_documentReviews md_cv_rejected) ''rejected'' ''cv''"
    by (simp add: review_status_is_def md_cv_rejected_def)
  have c: "distinct [''cv''] \<and>
    (\<exists>r\<in>set (md_reuploadRequests md_cv_rejected). rq_status r = ''pending'' \<and> distinct (rq_documents r) \<and>
        set (rq_documents r) =
        {d \<in> set [''cv'']. review_status_is (md_documentReviews md_cv_rejected) ''rejected'' d}) \<and>
    (\<exists>d\<in>set [''cv'']. review_status_is (md_documentReviews md_cv_rejected) ''rejected'' d)"
    using b by (auto simp: md_cv_rejected_def)
  have l: "length (md_reuploadRequests md_cv_rejected) = 1" by (simp add: md_cv_rejected_def)
  have 1: "request_reupload 7 [''cv''] (Some ''please'') md_fresh = Inl NoRejectedDocuments"
    using request_reupload_checks [of "[''cv'']" md_fresh 7 "Some ''please''"] a by blast
  obtain m' where m': "request_reupload 7 [''cv''] (Some ''please'') md_cv_rejected = Inr m'"
      "length (md_reuploadRequests m') = length (md_reuploadRequests md_cv_rejected)"
    using request_reupload_checks [of "[''cv'']" md_cv_rejected 7 "Some ''please''"] c by blast
  show ?thesis using 1 b m' l by simp
qed

text \<open>
  C4 as stated fails in the application router, on \<^const>\<open>app_cv_approved\<close>: the \<open>cv\<close> is
  approved, no kind is rejected, and the request for \<open>cv\<close> is accepted; sent twice, it is
  stored twice.
\<close>

theorem mongo_request_reupload_unchecked:
  "app_documentStatus app_cv_approved = [(''cv'', ''approved'')] \<and>
   app_status (mongo_request_reupload 5 [''cv''] (Some ''again'') app_cv_approved) =
     ''reupload-requested'' \<and>
   map rq_documents
     (app_reuploadRequests
        (mongo_request_reupload 6 [''cv''] (Some ''again'')
           (mongo_request_reupload 5 [''cv''] (Some ''again'') app_cv_approved))) =
     [ [''cv''], [''cv''] ] \<and>
   map rq_status
     (app_reuploadRequests
        (mongo_request_reupload 6 [''cv''] (Some ''again'')
           (mongo_request_reupload 5 [''cv''] (Some ''again'') app_cv_approved))) =
     [''pending'', ''pending'']"
  by code_simp

subsection \<open>C5: payment verification\<close>

text \<open>
  Claim C5, as amended.  \<open>POST /verify-payment\<close> succeeds on every existing editing record,
  whether or not a transaction was submitted: it sets the status \<open>editing_paid\<close> and the payment
  status \<open>paid\<close>, and it fails only when the record does not exist (404).  Among the requests
  that write an editing record (submitting the request, submitting a payment, uploading edited
  files, verifying the payment) it is the only one that takes a record whose status is not
  \<open>editing_paid\<close> to one whose status is.
\<close>

theorem verify_payment_unguarded:
  "(\<exists>m'. verify_payment now transactionId amount (Some m) = Inr m' \<and>
         ed_status m' = ''editing_paid'' \<and> ed_paymentStatus m' = ''paid'') \<and>
   verify_payment now transactionId amount None = Inl EditingRequestNotFound \<and>
   http_status EditingRequestNotFound = 404 \<and>
   (editing_step now op existing = Inr m'' \<and> ed_status m'' = ''editing_paid'' \<and>
    (\<forall>m0. existing = Some m0 \<longrightarrow> ed_status m0 \<noteq> ''editing_paid'') \<longrightarrow>
      (\<exists>t amt. op = VerifyPayment t amt))"
proof (intro conjI impI)
  show "\<exists>m'. verify_payment now transactionId amount (Some m) = Inr m' \<and>
         ed_status m' = ''editing_paid'' \<and> ed_paymentStatus m' = ''paid''"
    by (simp add: verify_payment_existing)
next
  show "verify_payment now transactionId amount None = Inl EditingRequestNotFound"
    by (simp add: verify_payment_def)
next
  show "http_status EditingRequestNotFound = 404" by simp
next
  assume "editing_step now op existing = Inr m'' \<and> ed_status m'' = ''editing_paid'' \<and>
    (\<forall>m0. existing = Some m0 \<longrightarrow> ed_status m0 \<noteq> ''editing_paid'')"
  then show "\<exists>t amt. op = VerifyPayment t amt"
    using editing_step_paid [of now op existing m''] by blast
qed

text \<open>
  The theorem on \<^const>\<open>ed_bob\<close>, whose status is \<open>editing_completed\<close>: the step that verifies
  the payment leaves \<^const>\<open>ed_bob_paid\<close>, whose status is \<open>editing_paid\<close>.
\<close>

theorem verify_payment_unguarded_witness:
  "ed_status ed_bob = ''editing_completed'' \<and>
   editing_step 3 (VerifyPayment (Some ''TX1'') (Some ''20'')) (Some ed_bob) = Inr ed_bob_paid \<and>
   ed_status ed_bob_paid = ''editing_paid''"
proof -
  have a: "ed_status ed_bob = ''editing_completed''" by (simp add: ed_bob_def)
  have b: "editing_step 3 (VerifyPayment (Some ''TX1'') (Some ''20'')) (Some ed_bob) = Inr ed_bob_paid"
    by (simp add: verify_payment_existing ed_bob_paid_def ed_bob_def truthy_def)
  have c: "ed_status ed_bob_paid = ''editing_paid''" by (simp add: ed_bob_paid_def)
  have d: "\<forall>m0. Some ed_bob = Some m0 \<longrightarrow> ed_status m0 \<noteq> ''editing_paid''"
    using a by simp
  have "\<exists>t amt. VerifyPayment (Some ''TX1'') (Some ''20'') = VerifyPayment t amt"
    using verify_payment_unguarded
      [of 3 "Some ''TX1''" "Some ''20''" ed_bob "VerifyPayment (Some ''TX1'') (Some ''20'')"
          "Some ed_bob" ed_bob_paid]
      b c d by blast
  then show ?thesis using a b c by blast
qed

text \<open>
  C5 as stated fails on \<^const>\<open>ed_bob\<close>: no transaction was submitted
  (\<open>pendingTransaction\<close> is missing), and the verification succeeds all the same.
\<close>

theorem verify_payment_without_transaction:
  "ed_pendingTransaction ed_bob = None \<and> ed_paymentStatus ed_bob = ''pending'' \<and>
   verify_payment 3 (Some ''TX1'') (Some ''20'') (Some ed_bob) = Inr ed_bob_paid \<and>
   ed_status ed_bob_paid = ''editing_paid'' \<and> ed_paymentStatus ed_bob_paid = ''paid''"
  by (simp add: verify_payment_existing ed_bob_paid_def ed_bob_def truthy_def)

subsection \<open>C6: download tokens\<close>



subsection \<open>C9: rejection counts\<close>

text \<open>
  Claim C9.  The rejection count of a kind is its entry in \<open>documentRejectionCount\<close>, read as
  0 when missing.  In both review handlers a review with the decision \<open>rejected\<close> adds one to
  the count of the reviewed kind, any other decision leaves it, and the counts of the other
  kinds are left; the file-backed handler also writes the count into the review entry.  A
  successful upload leaves every count, and a refused one changes nothing.  So over any run of
  reviews and uploads the count of a kind never decreases: once incremented it is never zero
  again.
\<close>

theorem rejection_count_monotone:
  "count_or (md_documentRejectionCount (review_document now k s c m)) d 0 =
     count_or (md_documentRejectionCount m) d 0 + (if d = k \<and> s = ''rejected'' then 1 else 0) \<and>
   map_option rv_rejectionCount (map_of (md_documentReviews (review_document now k s c m)) k) =
     Some (count_or (md_documentRejectionCount (review_document now k s c m)) k 0) \<and>
   count_or (app_documentRejectionCount (mongo_review_document now u k s c a)) d 0 =
     count_or (app_documentRejectionCount a) d 0 + (if d = k \<and> s = ''rejected'' then 1 else 0) \<and>
   (submit_upload now req (Some a) = Inr a' \<longrightarrow>
      app_documentRejectionCount a' = app_documentRejectionCount a) \<and>
   count_or (md_documentRejectionCount m) d 0 \<le>
     count_or (md_documentRejectionCount (review_documents evs m)) d 0 \<and>
   count_or (app_documentRejectionCount a) d 0 \<le>
     count_or (app_documentRejectionCount (app_run es a)) d 0 \<and>
   (0 < count_or (app_documentRejectionCount a) d 0 \<longrightarrow>
      0 < count_or (app_documentRejectionCount (app_run es a)) d 0)"
proof (intro conjI impI)
  show "count_or (md_documentRejectionCount (review_document now k s c m)) d 0 =
     count_or (md_documentRejectionCount m) d 0 + (if d = k \<and> s = ''rejected'' then 1 else 0)"
    by (simp add: review_document_counts count_or_update)
next
  show "map_option rv_rejectionCount (map_of (md_documentReviews (review_document now k s c m)) k) =
     Some (count_or (md_documentRejectionCount (review_document now k s c m)) k 0)"
    by (simp add: review_document_reviews update_conv')
next
  show "count_or (app_documentRejectionCount (mongo_review_document now u k s c a)) d 0 =
     count_or (app_documentRejectionCount a) d 0 + (if d = k \<and> s = ''rejected'' then 1 else 0)"
    by (simp add: mongo_review_counts count_or_update)
next
  assume "submit_upload now req (Some a) = Inr a'"
  then show "app_documentRejectionCount a' = app_documentRejectionCount a"
    by (rule submit_upload_counts)
next
  show "count_or (md_documentRejectionCount m) d 0 \<le>
     count_or (md_documentRejectionCount (review_documents evs m)) d 0"
    by (rule review_documents_counts)
next
  show "count_or (app_documentRejectionCount a) d 0 \<le>
     count_or (app_documentRejectionCount (app_run es a)) d 0"
    by (rule app_run_counts)
next
  assume "0 < count_or (app_documentRejectionCount a) d 0"
  then show "0 < count_or (app_documentRejectionCount (app_run es a)) d 0"
    using app_run_counts [of a d es] by simp
qed

text \<open>
  The theorem on \<^const>\<open>app_alice\<close>: the \<open>cv\<close> is rejected, uploaded again, and approved; its
  count is 1 after the rejection and stays 1.
\<close>

theorem rejection_count_monotone_witness:
  "submit_upload 9 upload_cv (Some app_alice) = Inr (app_step (Upload 9 upload_cv) app_alice) \<and>
   app_documentRejectionCount (app_step (Upload 9 upload_cv) app_alice) =
     app_documentRejectionCount app_alice \<and>
   count_or (app_documentRejectionCount
               (mongo_review_document 5 None ''cv'' ''rejected'' (Some ''blurry'') app_alice)) ''cv'' 0 = 1 \<and>
   count_or (app_documentRejectionCount
               (app_run [Review 5 None ''cv'' ''rejected'' (Some ''blurry''), Upload 9 upload_cv,
                         Review 12 None ''cv'' ''approved'' None] app_alice)) ''cv'' 0 = 1"
proof -
  note t = rejection_count_monotone
    [where now = 5 and k = "''cv''" and s = "''rejected''" and c = "Some ''blurry''" and d = "''cv''"
       and u = None and a = app_alice]
  have "isl (submit_upload 9 upload_cv (Some app_alice)) = False"
    by code_simp
  then have ok: "submit_upload 9 upload_cv (Some app_alice) = Inr (app_step (Upload 9 upload_cv) app_alice)"
    by (cases "submit_upload 9 upload_cv (Some app_alice)") simp_all
  have z: "count_or (app_documentRejectionCount app_alice) ''cv'' 0 = 0"
    by (simp add: app_alice_def count_or_def)
  have 1: "app_documentRejectionCount (app_step (Upload 9 upload_cv) app_alice) =
     app_documentRejectionCount app_alice"
    using rejection_count_monotone
      [where now = 9 and req = upload_cv and a = app_alice
         and a' = "app_step (Upload 9 upload_cv) app_alice"] ok
    by blast
  have 2: "count_or (app_documentRejectionCount
               (mongo_review_document 5 None ''cv'' ''rejected'' (Some ''blurry'') app_alice)) ''cv'' 0 = 1"
    using t z by simp
  have 3: "count_or (app_documentRejectionCount
               (app_run [Review 5 None ''cv'' ''rejected'' (Some ''blurry''), Upload 9 upload_cv,
                         Review 12 None ''cv'' ''approved'' None] app_alice)) ''cv'' 0 = 1"
    by code_simp
  show ?thesis using ok 1 2 3 by blast
qed

subsection \<open>C10: all tracked documents rejected\<close>



end
